theory Spec2Isabelle
  imports Main "HOL-Library.Sublist"
begin

section \<open>Data model\<close>

text \<open>
  The attribute object the XML layer delivers for one element (\<open>Thing\<close> in the sources,
  whose declaration is not among them; the spec's Item is
  \<open>{ id: string, href: string, media-type: string, properties?: string }\<close>): a finite
  mapping from attribute name to attribute text, the object's own properties. Behind them
  are the members every plain object inherits from \<open>Object.prototype\<close>. None of these is
  named \<open>id\<close>, \<open>idref\<close>, \<open>href\<close>, \<open>media-type\<close>, \<open>title\<close>, \<open>order\<close> or \<open>version\<close>, so
  a read of one of those names is a read among the own attributes (\<open>None\<close> is
  \<open>undefined\<close>); the reads of \<open>hasOwnProperty\<close> and \<open>toString\<close> are written out where the
  code makes them.
\<close>

type_synonym Thing = "string \<rightharpoonup> string"

text \<open>The names of the members of \<open>Object.prototype\<close>.\<close>

definition Object_prototype :: "string list" where
  "Object_prototype =
     [''constructor'', ''__defineGetter__'', ''__defineSetter__'', ''hasOwnProperty'',
      ''__lookupGetter__'', ''__lookupSetter__'', ''isPrototypeOf'', ''propertyIsEnumerable'',
      ''toString'', ''valueOf'', ''__proto__'', ''toLocaleString'']"

text \<open>
  The Manifest (\<open>manifest: {}\<close> in \<open>parseRootFile\<close>): a plain object whose own properties
  map item ids to Items.
\<close>

type_synonym Manifest = "string \<rightharpoonup> Thing"

text \<open>
  What \<open>manifest[key]\<close> finds: an Item stored under the key, or else the member of
  \<open>Object.prototype\<close> of that name (a function, or for \<open>__proto__\<close> the prototype object
  itself), or else nothing (\<open>undefined\<close>, which is \<open>None\<close>). An inherited member is truthy,
  has no own property \<open>id\<close>, \<open>href\<close> or \<open>media-type\<close>, and turns into a string without
  error.
\<close>

datatype found = Item Thing | Inherited string

definition lookup :: "Manifest \<Rightarrow> string \<Rightarrow> found option" where
  "lookup obj key = (case obj key of
       Some item \<Rightarrow> Some (Item item)
     | None \<Rightarrow> if key \<in> set Object_prototype then Some (Inherited key) else None)"

text \<open>The values a Chapter field or a TableOfContents key can hold.\<close>

datatype jsval = JUndefined | JStr string | JNum nat

type_synonym Chapter = "string \<rightharpoonup> jsval"

text \<open>\<open>obj.name\<close> on an attribute object: the attribute text, or \<open>undefined\<close>.\<close>

definition attr :: "Thing \<Rightarrow> string \<Rightarrow> jsval" where
  "attr obj name = (case obj name of None \<Rightarrow> JUndefined | Some v \<Rightarrow> JStr v)"

text \<open>\<open>obj.name\<close> on a Chapter.\<close>

definition fld :: "Chapter \<Rightarrow> string \<Rightarrow> jsval" where
  "fld obj name = (case obj name of None \<Rightarrow> JUndefined | Some v \<Rightarrow> v)"

text \<open>\<open>...item\<close> inside a Chapter literal: every attribute of the item, as a Chapter field.\<close>

definition spread :: "Thing \<Rightarrow> Chapter" where
  "spread item = (\<lambda>name. map_option JStr (item name))"

text \<open>
  Modelled from the spec: the class TableOfContents (\<open>toc/TableOfContents\<close> is not among
  the sources). "An ordered mapping from chapter id to Chapter; insertion order is reading
  order; keys unique (last write for a given id wins if a strategy revisits it)." The
  entries are kept in insertion order; \<open>toc_set\<close> is \<open>toc.set(key, value)\<close>: a key already
  present keeps its place and takes the new value, a new key goes to the end.
\<close>

type_synonym TableOfContents = "(jsval \<times> Chapter) list"

primrec toc_set :: "jsval \<Rightarrow> Chapter \<Rightarrow> TableOfContents \<Rightarrow> TableOfContents" where
  "toc_set k v [] = [(k, v)]"
| "toc_set k v (e # es) = (if fst e = k then (k, v) # es else e # toc_set k v es)"

text \<open>
  A top-level field of the Spine object that \<open>parseSpine\<close> assembles: attribute text merged
  in from the raw element, the array of resolved items, or an attribute object.
\<close>

datatype sfield = Text string | Items "Thing list" | Attrs Thing

text \<open>
  The Spine (\<open>interface Spine { toc: string, contents: Array<any>, _attributes }\<close>) as
  the object it is at run time: a mapping from field name to field value, since
  \<open>parseSpine\<close> merges arbitrary attributes of the raw element into it.
\<close>

type_synonym Spine = "string \<rightharpoonup> sfield"

text \<open>
  What a MIME check compares against: a literal string (\<open>INFO.MIME\<close>, \<open>INFO.OEBPS_ID\<close>),
  the expression \<open>ALLOWED_MIMES\<close>, or the expression \<open>/^image\//i\<close> of \<open>getImage\<close>.
\<close>

datatype pattern = Literal string | ALLOWED_MIMES | IMAGE

datatype error =
    TypeError_Missing_id nat "found option"
      \<comment> \<open>\<open>TypeError(`Missing id at index ${index} | item, ${l}`)\<close>: the index and the lookup result\<close>
  | TypeError_undefined_property string
      \<comment> \<open>reading the named property of \<open>undefined\<close>\<close>
  | TypeError_not_a_function string
      \<comment> \<open>calling the named expression, whose value is not a function\<close>
  | TypeError_not_primitive
      \<comment> \<open>an object that cannot be converted to a string\<close>
  | TypeError_not_iterable
      \<comment> \<open>\<open>for (... of v)\<close> on a value that cannot be iterated\<close>
  | TypeError_NO_TOC
      \<comment> \<open>\<open>TypeError("NO TOC")\<close>\<close>
  | UnknownItemError string
      \<comment> \<open>the message\<close>
  | MIMEError string "string option" pattern
      \<comment> \<open>the offending id, the actual value, the expected pattern\<close>
  | Error string
      \<comment> \<open>the message\<close>
  | Error_Could_not_find_entry string
      \<comment> \<open>\<open>Error(`Could not find entry with name ${name}, ...`)\<close>: the name\<close>

section \<open>walkSpine\<close>

text \<open>
  \<open>for (const item of spine.contents)\<close>: an array yields its elements. A string yields its
  characters; the loop body reads \<open>item.id\<close> (undefined on a character) and spreads the
  item (a one-character string spreads to \<open>{0: c}\<close>), so a character acts as that
  attribute object. Anything else cannot be iterated.
\<close>

definition for_of :: "sfield option \<Rightarrow> error + Thing list" where
  "for_of v = (case v of
       Some (Items xs) \<Rightarrow> Inr xs
     | Some (Text s) \<Rightarrow> Inr (map (\<lambda>c. [''0'' \<mapsto> [c]]) s)
     | _ \<Rightarrow> Inl TypeError_not_iterable)"

text \<open>
  The loop body of \<open>walkSpine\<close>, with the counter \<open>order\<close> and the table under
  construction passed along. The counter is read and incremented while the element is
  built, before the test that skips the item.
\<close>

definition element :: "Thing \<Rightarrow> nat \<Rightarrow> Chapter" where
  "element item order = [''title'' \<mapsto> attr item ''id'', ''order'' \<mapsto> JNum order] ++ spread item"

fun walk :: "Thing list \<Rightarrow> nat \<Rightarrow> TableOfContents \<Rightarrow> TableOfContents" where
  "walk [] order toc = toc"
| "walk (item # rest) order toc =
     (if fld (element item order) ''id'' = JUndefined
      then walk rest (Suc order) toc
      else walk rest (Suc order) (toc_set (attr item ''id'') (element item order) toc))"

definition walkSpine :: "Spine \<Rightarrow> error + TableOfContents" where
  "walkSpine spine = (case for_of (spine ''contents'') of
       Inl e \<Rightarrow> Inl e
     | Inr items \<Rightarrow> Inr (walk items 0 []))"

section \<open>parseSpine\<close>

text \<open>The compact XML form gives one child element as an object and several as an array.\<close>

datatype 'a one_or_many = One 'a | Many "'a list"

text \<open>
  Modelled from the spec: \<open>toArray\<close> (\<open>./toArray\<close> is not among the sources). "Input may be
  a single object or a sequence; must be normalized to a sequence first (single-item
  collapsing is a known format quirk)."
\<close>

fun toArray :: "'a one_or_many \<Rightarrow> 'a list" where
  "toArray (One x) = [x]"
| "toArray (Many xs) = xs"

text \<open>
  One raw \<open>itemref\<close> entry and the raw \<open>spine\<close> element. An element written without any
  attribute has no \<open>_attributes\<close> object, and a spine without \<open>itemref\<close> children has no
  \<open>itemref\<close> field: both are \<open>None\<close>.
\<close>

record RawItemref =
  ref_attributes :: "Thing option"

record RawSpine =
  itemref :: "RawItemref one_or_many option"
  spine_attributes :: "Thing option"

text \<open>The property key a value is turned into by \<open>obj[v]\<close>: \<open>undefined\<close> reads the key "undefined".\<close>

definition key_of :: "string option \<Rightarrow> string" where
  "key_of v = (case v of None \<Rightarrow> ''undefined'' | Some s \<Rightarrow> s)"

text \<open>
  The callback of \<open>itemref.map\<close>, at one entry and its index. The test
  \<open>l && l.hasOwnProperty("id")\<close> calls what \<open>l.hasOwnProperty\<close> reads: on an Item that
  carries an attribute of that name it is text, and the call throws; otherwise it is the
  inherited function, which tells whether \<open>id\<close> is an own property. The message of the
  TypeError is built with \<open>${l}\<close>: an Item that carries an attribute \<open>toString\<close> cannot
  be turned into a string, and that throws instead.
\<close>

definition resolve :: "Manifest \<Rightarrow> nat \<Rightarrow> RawItemref \<Rightarrow> error + Thing" where
  "resolve rawManifest index r = (case ref_attributes r of
       None \<Rightarrow> Inl (TypeError_undefined_property ''idref'')
     | Some atrs \<Rightarrow>
         (let l = lookup rawManifest (key_of (atrs ''idref''))
          in case l of
               None \<Rightarrow> Inl (TypeError_Missing_id index l)
             | Some (Inherited name) \<Rightarrow> Inl (TypeError_Missing_id index l)
             | Some (Item item) \<Rightarrow>
                 (case item ''hasOwnProperty'' of
                    Some h \<Rightarrow> Inl (TypeError_not_a_function ''l.hasOwnProperty'')
                  | None \<Rightarrow>
                     (case item ''id'' of
                        Some i \<Rightarrow> Inr item
                      | None \<Rightarrow>
                         (case item ''toString'' of
                            Some t \<Rightarrow> Inl TypeError_not_primitive
                          | None \<Rightarrow> Inl (TypeError_Missing_id index l))))))"

text \<open>\<open>itemref.map(callback)\<close>: entries in order, from the given index, stopping at the first throw.\<close>

fun map_index :: "Manifest \<Rightarrow> nat \<Rightarrow> RawItemref list \<Rightarrow> error + Thing list" where
  "map_index rawManifest index [] = Inr []"
| "map_index rawManifest index (r # rs) = (case resolve rawManifest index r of
       Inl e \<Rightarrow> Inl e
     | Inr l \<Rightarrow> (case map_index rawManifest (Suc index) rs of
           Inl e \<Rightarrow> Inl e
         | Inr ls \<Rightarrow> Inr (l # ls)))"

text \<open>
  The object literal \<open>{ toc: "ncx", contents: [], ..._attributes, _attributes: {} }\<close>:
  later entries override earlier ones of the same name.
\<close>

definition spine_literal :: "Thing option \<Rightarrow> Spine" where
  "spine_literal attributes =
     (([''toc'' \<mapsto> Text ''ncx'', ''contents'' \<mapsto> Items []]
        ++ (case attributes of None \<Rightarrow> Map.empty | Some a \<Rightarrow> (\<lambda>name. map_option Text (a name))))
      (''_attributes'' \<mapsto> Attrs Map.empty))"

definition parseSpine :: "RawSpine \<Rightarrow> Manifest \<Rightarrow> error + Spine" where
  "parseSpine raw rawManifest =
     (let s = spine_literal (spine_attributes raw)
      in case itemref raw of
           None \<Rightarrow> Inr s
         | Some refs \<Rightarrow> (case map_index rawManifest 0 (toArray refs) of
               Inl e \<Rightarrow> Inl e
             | Inr ls \<Rightarrow> Inr (s(''contents'' \<mapsto> Items ls))))"

section \<open>The table-of-contents pipeline and parseRootFile\<close>

text \<open>
  The first two strategies (\<open>walkNavMap\<close> and \<open>walkTOC\<close>, which the comment on
  \<open>walkSpine\<close> names) fetch and parse auxiliary documents through the parser; what they
  come to, for a manifest and the spine's \<open>toc\<close> id, is taken as given. \<open>None\<close> is a
  strategy that raised or found no document.
\<close>

record Strategies =
  walkNavMap :: "Manifest \<Rightarrow> sfield option \<Rightarrow> TableOfContents option"
  walkTOC :: "Manifest \<Rightarrow> TableOfContents option"

definition nonempty :: "TableOfContents option \<Rightarrow> TableOfContents option" where
  "nonempty r = (case r of
       None \<Rightarrow> None
     | Some t \<Rightarrow> (case t of [] \<Rightarrow> None | _ # _ \<Rightarrow> Some t))"

text \<open>
  Modelled from the spec: \<open>parseTOC\<close> (\<open>toc/parseTOC\<close> is not among the sources). "Tries, in
  priority order, to build a canonical table of contents from (a) a navigation-map
  document, (b) a nav document, (c) the spine order as last resort"; "first success wins;
  success = produces a non-empty, structurally valid TOC; an exception/failure inside a
  strategy is caught and treated as: this strategy does not apply"; "if no strategy yields
  a non-empty TOC, the overall document-open operation fails fatally". The result is the
  table of the first strategy that succeeds, and no table (\<open>undefined\<close>) when none does.
  The call in \<open>parseRootFile\<close> passes the manifest, \<open>spine.toc\<close> and the parser; the third
  strategy walks \<open>spine.contents\<close>, so the model is given the Spine.
\<close>

definition parseTOC :: "Strategies \<Rightarrow> Manifest \<Rightarrow> Spine \<Rightarrow> TableOfContents option" where
  "parseTOC parser m sp =
     (case nonempty (walkNavMap parser m (sp ''toc'')) of
        Some t \<Rightarrow> Some t
      | None \<Rightarrow>
         (case nonempty (walkTOC parser m) of
            Some t \<Rightarrow> Some t
          | None \<Rightarrow> nonempty (case walkSpine sp of Inl e \<Rightarrow> None | Inr t \<Rightarrow> Some t)))"

text \<open>
  The package element of the root file, and the functions of the repository that
  \<open>parseRootFile\<close> calls and that are not among the sources: they are parameters.
\<close>

record ('rm, 'ri) RootFile =
  pkg_metadata :: 'rm
  pkg_manifest_item :: 'ri
  pkg_spine :: RawSpine
  pkg_attributes :: "Thing option"

record ('rm, 'ri, 'md, 'fl) Collaborators =
  parseMetadata :: "'rm \<Rightarrow> 'md"
  parseManifest :: "'ri \<Rightarrow> Manifest"
  parseFlow :: "sfield option \<Rightarrow> 'fl"

record ('md, 'fl) Parts =
  metadata :: 'md
  manifest :: Manifest
  spine :: Spine
  flow :: 'fl
  toc :: TableOfContents
  version :: string

datatype EV = EV_metadata | EV_manifest | EV_spine | EV_flow | EV_toc | EV_loaded

text \<open>
  \<open>parseRootFile\<close>: the outcome, and the events emitted up to it. \<open>if (parts.toc)\<close> holds
  for every table, empty or not, and fails for \<open>undefined\<close>.
\<close>

definition parseRootFile ::
  "('rm, 'ri, 'md, 'fl) Collaborators \<Rightarrow> Strategies \<Rightarrow> ('rm, 'ri) RootFile
     \<Rightarrow> (error + ('md, 'fl) Parts) \<times> EV list" where
  "parseRootFile c parser pkg = (case pkg_attributes pkg of
       None \<Rightarrow> (Inl (TypeError_undefined_property ''version''), [])
     | Some a \<Rightarrow>
        (let md = parseMetadata c (pkg_metadata pkg);
             v = (case a ''version'' of None \<Rightarrow> ''2.0'' | Some v \<Rightarrow> v);
             mf = parseManifest c (pkg_manifest_item pkg)
         in case parseSpine (pkg_spine pkg) mf of
              Inl e \<Rightarrow> (Inl e, [EV_metadata, EV_manifest])
            | Inr sp \<Rightarrow>
               (let fl = parseFlow c (sp ''contents'')
                in case parseTOC parser mf sp of
                     None \<Rightarrow> (Inl TypeError_NO_TOC, [EV_metadata, EV_manifest, EV_spine, EV_flow])
                   | Some t \<Rightarrow>
                       (Inr \<lparr>metadata = md, manifest = mf, spine = sp, flow = fl, toc = t,
                             version = v\<rparr>,
                        [EV_metadata, EV_manifest, EV_spine, EV_flow, EV_toc, EV_loaded]))))"

section \<open>Reader\<close>

definition MIME :: string where "MIME = ''application/epub+zip''"
definition TARGET :: string where "TARGET = ''mimetype''"
definition CONTAINER_ID :: string where "CONTAINER_ID = ''meta-inf/container.xml''"
definition OEBPS_ID :: string where "OEBPS_ID = ''application/oebps-package+xml''"

record Entry =
  filename :: string
  directory :: bool

datatype writer = BlobWriter string | TextWriter string

record 'd LoadedEntry =
  loaded_file :: Entry
  data :: 'd

text \<open>
  What the code takes from outside the repository: the zip library (the entry list of the
  archive, the decoded data of an entry), the built-in string functions, and the test of
  a value against an expected pattern. The data of an entry is of a type \<open>'d\<close>, read as a
  string by \<open>as_text\<close> (\<open>data as string\<close>, \<open>data.toString()\<close>).
\<close>

record 'd Platform =
  getEntries :: "Entry list"
  getData :: "Entry \<Rightarrow> writer \<Rightarrow> 'd"
  as_text :: "'d \<Rightarrow> string"
  createObjectURL :: "'d \<Rightarrow> string"
  decodeURI :: "string \<Rightarrow> string"
  toLowerCase :: "string \<Rightarrow> string"
  trim :: "string \<Rightarrow> string"
  matches :: "string option \<Rightarrow> pattern \<Rightarrow> bool"

text \<open>
  Modelled from the spec: \<open>MIMEError.unless\<close> (\<open>error/MIMEError\<close> is not among the sources).
  "Format-mismatch error: an expected identifying string/MIME does not match the expected
  pattern. Carries the offending id, actual value, expected pattern; always fatal at the
  point raised."
\<close>

definition MIMEError_unless :: "'d Platform \<Rightarrow> string \<Rightarrow> string option \<Rightarrow> pattern \<Rightarrow> error + unit" where
  "MIMEError_unless p ident actual expected =
     (if matches p actual expected then Inr () else Inl (MIMEError ident actual expected))"

definition prepareGet :: "Entry list \<Rightarrow> string \<Rightarrow> (Entry \<Rightarrow> bool) \<Rightarrow> error + Entry" where
  "prepareGet es name predicate = (case find predicate es of
       Some entry \<Rightarrow> Inr entry
     | None \<Rightarrow> Inl (Error_Could_not_find_entry name))"

definition partialSearch :: "'d Platform \<Rightarrow> Entry list \<Rightarrow> string \<Rightarrow> error + Entry" where
  "partialSearch p es name =
     (let fn = toLowerCase p (decodeURI p
                 (case name of [] \<Rightarrow> name | c # cs \<Rightarrow> if c = CHR ''/'' then cs else name))
      in prepareGet es fn (\<lambda>n.
           if directory n then False
           else (let nf = toLowerCase p (filename n) in sublist fn nf \<or> sublist nf fn)))"

definition determineWriter :: "string option \<Rightarrow> writer" where
  "determineWriter t = (case t of
       None \<Rightarrow> TextWriter ''utf-8''
     | Some ty \<Rightarrow> if sublist ''image/'' ty then BlobWriter ty else TextWriter ''utf-8'')"

definition Reader_read :: "'d Platform \<Rightarrow> Entry list \<Rightarrow> string \<Rightarrow> string option \<Rightarrow> error + 'd LoadedEntry" where
  "Reader_read p es name type = (case partialSearch p es name of
       Inl e \<Rightarrow> Inl e
     | Inr f \<Rightarrow> Inr \<lparr>loaded_file = f, data = getData p f (determineWriter type)\<rparr>)"

definition checkMimeType :: "'d Platform \<Rightarrow> Entry list \<Rightarrow> error + unit" where
  "checkMimeType p es = (case Reader_read p es TARGET None of
       Inl e \<Rightarrow> Inl e
     | Inr l \<Rightarrow> MIMEError_unless p TARGET (Some (as_text p (data l))) (Literal MIME))"

text \<open>The fields of a Reader that \<open>init\<close> assigns.\<close>

record 'd Reader =
  entries :: "Entry list"
  container :: "'d LoadedEntry option"

text \<open>The steps \<open>init\<close> goes through on the archive, logged in the order they are taken.\<close>

datatype step = Step_getEntries | Step_close | Step_checkMimeType | Step_read string

text \<open>\<open>init\<close> on a fresh Reader: the outcome (the Reader as initialised, or the error thrown) and the log.\<close>

definition init :: "'d Platform \<Rightarrow> (error + 'd Reader) \<times> step list" where
  "init p =
     (let es = getEntries p
      in if length es \<noteq> 0
         then (case checkMimeType p es of
                 Inl e \<Rightarrow> (Inl e, [Step_getEntries, Step_close, Step_checkMimeType])
               | Inr _ \<Rightarrow> (case Reader_read p es CONTAINER_ID None of
                     Inl e \<Rightarrow> (Inl e, [Step_getEntries, Step_close, Step_checkMimeType,
                                        Step_read CONTAINER_ID])
                   | Inr c \<Rightarrow> (Inr \<lparr>entries = es, container = Some c\<rparr>,
                               [Step_getEntries, Step_close, Step_checkMimeType,
                                Step_read CONTAINER_ID])))
         else (Inl (Error ''Empty archive!''), [Step_getEntries, Step_close]))"

text \<open>The exported \<open>read(value)\<close>: a new Reader, initialised.\<close>

definition read :: "'d Platform \<Rightarrow> error + 'd Reader" where
  "read p = fst (init p)"

section \<open>Retriever\<close>

text \<open>
  The retrieval operations close over \<open>parts\<close> and the parser's reader (any
  \<open>ReaderLike\<close>: its \<open>read\<close> is the parameter \<open>rd\<close>). \<open>getContent\<close> and \<open>getImage\<close> return
  their outcome together with the Parts aggregate as it is after the call.
\<close>

definition searchManifestOrPanic :: "('md, 'fl) Parts \<Rightarrow> string \<Rightarrow> error + found" where
  "searchManifestOrPanic parts ident = (case lookup (manifest parts) ident of
       None \<Rightarrow> Inl (UnknownItemError (''Unkown manifest item: '' @ ident))
     | Some l \<Rightarrow> Inr l)"

text \<open>\<open>elem["media-type"]\<close> and \<open>elem.href\<close> on what the search returned.\<close>

definition get :: "found \<Rightarrow> string \<Rightarrow> string option" where
  "get elem name = (case elem of Item item \<Rightarrow> item name | Inherited member \<Rightarrow> None)"

definition getContent ::
  "'d Platform \<Rightarrow> (string option \<Rightarrow> string option \<Rightarrow> error + 'd LoadedEntry) \<Rightarrow> ('md, 'fl) Parts
     \<Rightarrow> string \<Rightarrow> (error + string) \<times> ('md, 'fl) Parts" where
  "getContent p rd parts ident = (case searchManifestOrPanic parts ident of
       Inl e \<Rightarrow> (Inl e, parts)
     | Inr elem \<Rightarrow> (case MIMEError_unless p ident (get elem ''media-type'') ALLOWED_MIMES of
           Inl e \<Rightarrow> (Inl e, parts)
         | Inr _ \<Rightarrow> (case rd (get elem ''href'') (get elem ''media-type'') of
               Inl e \<Rightarrow> (Inl e, parts)
             | Inr l \<Rightarrow> (Inr (as_text p (data l)), parts))))"

definition getImage ::
  "'d Platform \<Rightarrow> (string option \<Rightarrow> string option \<Rightarrow> error + 'd LoadedEntry) \<Rightarrow> ('md, 'fl) Parts
     \<Rightarrow> string \<Rightarrow> (error + string) \<times> ('md, 'fl) Parts" where
  "getImage p rd parts ident = (case searchManifestOrPanic parts ident of
       Inl e \<Rightarrow> (Inl e, parts)
     | Inr item \<Rightarrow> (case get item ''media-type'' of
           None \<Rightarrow> (Inl (TypeError_undefined_property ''trim''), parts)
         | Some mt \<Rightarrow> (case MIMEError_unless p ident (Some (trim p mt)) IMAGE of
               Inl e \<Rightarrow> (Inl e, parts)
             | Inr _ \<Rightarrow> (case rd (get item ''href'') (get item ''media-type'') of
                   Inl e \<Rightarrow> (Inl e, parts)
                 | Inr l \<Rightarrow> (Inr (createObjectURL p (data l)), parts)))))"

section \<open>Notions the properties are stated with\<close>

text \<open>The ids of the items that carry one, in spine order.\<close>

definition ids :: "Thing list \<Rightarrow> string list" where
  "ids xs = List.map_filter (\<lambda>x. x ''id'') xs"

text \<open>The \<open>order\<close> values of the chapters of a table, in insertion order.\<close>

definition orders :: "TableOfContents \<Rightarrow> jsval list" where
  "orders table = map (\<lambda>(k, c). fld c ''order'') table"

text \<open>The items that are not skipped, each with its zero-based position in the spine sequence.\<close>

definition kept :: "Thing list \<Rightarrow> (nat \<times> Thing) list" where
  "kept xs = filter (\<lambda>(p, x). x ''id'' \<noteq> None) (enumerate 0 xs)"

text \<open>The entries a walk appends to a table that holds none of the ids yet, counting from \<open>order\<close>.\<close>

fun inserted :: "Thing list \<Rightarrow> nat \<Rightarrow> TableOfContents" where
  "inserted [] order = []"
| "inserted (item # rest) order = (case item ''id'' of
       None \<Rightarrow> inserted rest (Suc order)
     | Some i \<Rightarrow> (JStr i, element item order) # inserted rest (Suc order))"

text \<open>What the manifest holds under the \<open>idref\<close> of an itemref entry.\<close>

definition lookup_item :: "Manifest \<Rightarrow> RawItemref \<Rightarrow> found option" where
  "lookup_item m r = (case ref_attributes r of
       None \<Rightarrow> None
     | Some atrs \<Rightarrow> lookup m (key_of (atrs ''idref'')))"

text \<open>
  An itemref entry resolves to an item: its \<open>idref\<close> names an Item of the manifest that
  carries \<open>id\<close> and no attribute named \<open>hasOwnProperty\<close>.
\<close>

definition resolves_to :: "Manifest \<Rightarrow> RawItemref \<Rightarrow> Thing \<Rightarrow> bool" where
  "resolves_to m r item \<longleftrightarrow>
     lookup_item m r = Some (Item item) \<and> item ''id'' \<noteq> None \<and> item ''hasOwnProperty'' = None"

text \<open>The attributes present on the raw spine element.\<close>

definition raw_attributes :: "RawSpine \<Rightarrow> Thing" where
  "raw_attributes raw = (case spine_attributes raw of None \<Rightarrow> Map.empty | Some a \<Rightarrow> a)"

section \<open>Properties of walkSpine\<close>

lemma fld_element_id: "fld (element item n) ''id'' = attr item ''id''"
  by (simp add: fld_def element_def spread_def attr_def map_add_def split: option.splits)

lemma fld_element_order:
  "fld (element item n) ''order'' = (case item ''order'' of None \<Rightarrow> JNum n | Some v \<Rightarrow> JStr v)"
  by (simp add: fld_def element_def spread_def map_add_def split: option.splits)

lemma fld_element_title:
  "fld (element item n) ''title''
     = (case item ''title'' of None \<Rightarrow> attr item ''id'' | Some v \<Rightarrow> JStr v)"
  by (simp add: fld_def element_def spread_def map_add_def split: option.splits)

lemma toc_set_keys: "fst ` set (toc_set k v t) = insert k (fst ` set t)"
  by (induction t) auto

lemma toc_set_fresh: "k \<notin> fst ` set t \<Longrightarrow> toc_set k v t = t @ [(k, v)]"
  by (induction t) auto

lemma ids_Nil: "ids [] = []"
  by (simp add: ids_def)

lemma ids_Cons: "ids (x # xs) = (case x ''id'' of None \<Rightarrow> ids xs | Some i \<Rightarrow> i # ids xs)"
  by (simp add: ids_def split: option.splits)

lemma walk_keys: "fst ` set (walk xs n table) = fst ` set table \<union> JStr ` set (ids xs)"
  by (induction xs arbitrary: n table)
    (auto simp: fld_element_id attr_def toc_set_keys ids_Nil ids_Cons split: option.splits)

lemma walk_inserted:
  "distinct (ids xs) \<Longrightarrow> JStr ` set (ids xs) \<inter> fst ` set table = {}
     \<Longrightarrow> walk xs n table = table @ inserted xs n"
proof (induction xs arbitrary: n table)
  case Nil
  then show ?case by simp
next
  case (Cons x xs)
  show ?case
  proof (cases "x ''id''")
    case None
    with Cons show ?thesis by (simp add: fld_element_id attr_def ids_Cons)
  next
    case (Some i)
    with Cons.prems have fresh: "JStr i \<notin> fst ` set table" and d: "distinct (ids xs)"
      and ni: "i \<notin> set (ids xs)" and disj: "JStr ` set (ids xs) \<inter> fst ` set table = {}"
      by (auto simp: ids_Cons)
    have "JStr ` set (ids xs) \<inter> fst ` set (toc_set (JStr i) (element x n) table) = {}"
      using disj ni by (auto simp: toc_set_keys)
    from Cons.IH[OF d this] Some fresh show ?thesis
      by (simp add: fld_element_id attr_def toc_set_fresh)
  qed
qed

lemma inserted_enumerate:
  "inserted xs n = map (\<lambda>(p, x). (attr x ''id'', element x p))
                     (filter (\<lambda>(p, x). x ''id'' \<noteq> None) (enumerate n xs))"
  by (induction xs arbitrary: n) (auto simp: attr_def split: option.splits)

lemma orders_inserted:
  "\<forall>x\<in>set xs. x ''order'' = None \<Longrightarrow>
   orders (map (\<lambda>(p, x). (attr x ''id'', element x p)) (filter P (enumerate n xs)))
     = map (\<lambda>(p, x). JNum p) (filter P (enumerate n xs))"
  by (induction xs arbitrary: n) (auto simp: orders_def fld_element_order)

lemma kept_all:
  "\<forall>x\<in>set xs. x ''id'' \<noteq> None
     \<Longrightarrow> filter (\<lambda>(p, x). x ''id'' \<noteq> None) (enumerate n xs) = enumerate n xs"
  by (induction xs arbitrary: n) auto

lemma sorted_fst_filter_enumerate: "sorted_wrt (<) (map fst (filter P (enumerate n xs)))"
proof -
  have "sorted_wrt (<) (map fst (enumerate n xs))" by simp
  then show ?thesis
    by (metis sorted_wrt_filter sorted_wrt_map)
qed

lemma map_JNum_fst: "map (\<lambda>(p, x). JNum p) ys = map JNum (map fst ys)"
  by (induction ys) auto

lemma map_JNum_enumerate:
  "map (\<lambda>(p, x). JNum p) (enumerate n xs) = map JNum [n..<n + length xs]"
  by (simp only: map_JNum_fst map_fst_enumerate)

lemma walkSpine_empty: "sp ''contents'' = Some (Items []) \<Longrightarrow> walkSpine sp = Inr []"
  by (simp add: walkSpine_def for_of_def)

text \<open>
  C3, as stated: the order values of the chapters \<open>walkSpine\<close> inserts are 0, 1, 2, ...
  without gaps across the inserted entries. This fails in three ways. The counter is
  incremented for a skipped item too: on a spine of an item without id followed by the
  item \<open>a\<close>, the only chapter inserted has order 1. A repeated id overwrites the earlier
  entry: on a spine that lists the item \<open>a\<close> twice, the only chapter has order 1. The
  attributes of the item are spread after \<open>order\<close>: an item that carries an attribute
  \<open>order\<close> keeps that text as its order.
\<close>

theorem walkSpine_orders_counterexample:
  "(case walkSpine [''contents'' \<mapsto> Items [[''href'' \<mapsto> ''h''], [''id'' \<mapsto> ''a'']]] of
      Inl e \<Rightarrow> False
    | Inr table \<Rightarrow> orders table = [JNum 1] \<and> orders table \<noteq> map JNum [0..<length table])
   \<and> (case walkSpine [''contents'' \<mapsto> Items [[''id'' \<mapsto> ''a''], [''id'' \<mapsto> ''a'']]] of
        Inl e \<Rightarrow> False
      | Inr table \<Rightarrow> orders table = [JNum 1] \<and> orders table \<noteq> map JNum [0..<length table])
   \<and> (case walkSpine [''contents'' \<mapsto> Items [[''id'' \<mapsto> ''a'', ''order'' \<mapsto> ''7'']]] of
        Inl e \<Rightarrow> False
      | Inr table \<Rightarrow> orders table = [JStr ''7''] \<and> orders table \<noteq> map JNum [0..<length table])"
  by (simp add: walkSpine_def for_of_def fld_element_id fld_element_order attr_def orders_def)

text \<open>
  C3, amended: for every spine whose items carry no attribute named \<open>order\<close> and whose
  non-skipped items have pairwise distinct ids, the order values of the chapters
  \<open>walkSpine\<close> inserts are, in insertion order, the zero-based positions in
  \<open>spine.contents\<close> of the non-skipped items. They are strictly increasing, and they are
  0, 1, 2, ... without gaps when no item is skipped.
\<close>

theorem walkSpine_orders_positions:
  assumes "sp ''contents'' = Some (Items xs)"
    and "\<forall>x\<in>set xs. x ''order'' = None"
    and "distinct (ids xs)"
  shows "\<exists>table. walkSpine sp = Inr table
           \<and> orders table = map (\<lambda>(p, x). JNum p) (kept xs)
           \<and> sorted_wrt (<) (map fst (kept xs))
           \<and> ((\<forall>x\<in>set xs. x ''id'' \<noteq> None) \<longrightarrow> orders table = map JNum [0..<length table])"
proof -
  have w: "walk xs 0 [] = inserted xs 0"
    using walk_inserted[OF assms(3), of "[]" 0] by simp
  have o: "orders (walk xs 0 []) = map (\<lambda>(p, x). JNum p) (kept xs)"
    unfolding w inserted_enumerate kept_def using assms(2) by (rule orders_inserted)
  have s: "sorted_wrt (<) (map fst (kept xs))"
    unfolding kept_def by (rule sorted_fst_filter_enumerate)
  have c: "orders (walk xs 0 []) = map JNum [0..<length (walk xs 0 [])]"
    if "\<forall>x\<in>set xs. x ''id'' \<noteq> None"
  proof -
    have k: "kept xs = enumerate 0 xs"
      unfolding kept_def using that by (rule kept_all)
    have "map (\<lambda>(p, x). JNum p) (enumerate 0 xs) = map JNum [0..<length xs]"
      using map_JNum_enumerate[of 0 xs] by simp
    moreover have "length (walk xs 0 []) = length xs"
      unfolding w inserted_enumerate using kept_all[OF that, of 0] by simp
    ultimately show ?thesis using o k by simp
  qed
  have r: "walkSpine sp = Inr (walk xs 0 [])"
    using assms(1) by (simp add: walkSpine_def for_of_def)
  show ?thesis using r o s c by blast
qed

text \<open>
  C3, amended, at two spines: the items \<open>a\<close>, \<open>b\<close> get the orders 0, 1; with an item
  without id between them they get 0, 2.
\<close>

theorem walkSpine_orders_positions_witness:
  "(\<exists>table. walkSpine [''contents'' \<mapsto> Items [[''id'' \<mapsto> ''a''], [''id'' \<mapsto> ''b'']]] = Inr table
       \<and> orders table = [JNum 0, JNum 1])
   \<and> (\<exists>table. walkSpine [''contents'' \<mapsto>
                   Items [[''id'' \<mapsto> ''a''], [''href'' \<mapsto> ''h''], [''id'' \<mapsto> ''b'']]] = Inr table
       \<and> orders table = [JNum 0, JNum 2])"
  using walkSpine_orders_positions
          [of "[''contents'' \<mapsto> Items [[''id'' \<mapsto> ''a''], [''id'' \<mapsto> ''b'']]]"
              "[[''id'' \<mapsto> ''a''], [''id'' \<mapsto> ''b'']]"]
        walkSpine_orders_positions
          [of "[''contents'' \<mapsto> Items [[''id'' \<mapsto> ''a''], [''href'' \<mapsto> ''h''], [''id'' \<mapsto> ''b'']]]"
              "[[''id'' \<mapsto> ''a''], [''href'' \<mapsto> ''h''], [''id'' \<mapsto> ''b'']]"]
  by (auto simp add: ids_def kept_def numeral_2_eq_2)

text \<open>
  C4, as stated: a spine of N items with defined ids gives a table of exactly N entries
  with orders 0..N-1. This fails when two items have the same id, since the second write
  replaces the first: on a spine that lists the item \<open>a\<close> twice (N = 2) the table has one
  entry, of order 1. It also fails for an item that carries an attribute \<open>order\<close>, which
  replaces the position: the single item \<open>a\<close> with \<open>order\<close> 7 gets that text as its order.
\<close>

theorem walkSpine_entries_counterexample:
  "(case walkSpine [''contents'' \<mapsto> Items [[''id'' \<mapsto> ''a''], [''id'' \<mapsto> ''a'']]] of
      Inl e \<Rightarrow> False
    | Inr table \<Rightarrow> length table = 1 \<and> orders table = [JNum 1])
   \<and> (case walkSpine [''contents'' \<mapsto> Items [[''id'' \<mapsto> ''a'', ''order'' \<mapsto> ''7'']]] of
        Inl e \<Rightarrow> False
      | Inr table \<Rightarrow> length table = 1 \<and> orders table = [JStr ''7''])"
  by (simp add: walkSpine_def for_of_def fld_element_id fld_element_order attr_def orders_def)

text \<open>
  C4, amended: for every spine whose contents has N items with defined and pairwise
  distinct ids, \<open>walkSpine\<close> produces a table of exactly N entries in spine order, the
  entry at position p keyed by the id of the item at position p; the chapter's order is p
  unless the item carries an attribute named \<open>order\<close> of its own, and its title is the
  item's id unless the item carries a \<open>title\<close> of its own.
\<close>

theorem walkSpine_entries:
  assumes "sp ''contents'' = Some (Items xs)"
    and "\<forall>x\<in>set xs. x ''id'' \<noteq> None"
    and "distinct (ids xs)"
  shows "\<exists>table. walkSpine sp = Inr table \<and> length table = length xs
           \<and> (\<forall>p<length xs.
                 fst (table ! p) = attr (xs ! p) ''id''
               \<and> fld (snd (table ! p)) ''order''
                   = (case (xs ! p) ''order'' of None \<Rightarrow> JNum p | Some v \<Rightarrow> JStr v)
               \<and> fld (snd (table ! p)) ''title''
                   = (case (xs ! p) ''title'' of None \<Rightarrow> attr (xs ! p) ''id'' | Some v \<Rightarrow> JStr v))"
proof -
  have w: "walk xs 0 [] = map (\<lambda>(p, x). (attr x ''id'', element x p)) (enumerate 0 xs)"
    using walk_inserted[OF assms(3), of "[]" 0] kept_all[OF assms(2), of 0]
    by (simp add: inserted_enumerate)
  have r: "walkSpine sp = Inr (walk xs 0 [])"
    using assms(1) by (simp add: walkSpine_def for_of_def)
  have n: "walk xs 0 [] ! p = (attr (xs ! p) ''id'', element (xs ! p) p)" if "p < length xs" for p
    unfolding w using that by (simp add: nth_enumerate_eq)
  have l: "length (walk xs 0 []) = length xs"
    unfolding w by simp
  show ?thesis
    using r l n by (simp add: fld_element_order fld_element_title)
qed

text \<open>
  C4, amended, at the spine of the items \<open>a\<close> and \<open>b\<close>, the second with a title of its
  own: two entries, keyed \<open>a\<close> and \<open>b\<close>, of orders 0 and 1, titled \<open>a\<close> and \<open>Two\<close>.
\<close>

theorem walkSpine_entries_witness:
  "\<exists>table. walkSpine [''contents'' \<mapsto> Items [[''id'' \<mapsto> ''a''], [''id'' \<mapsto> ''b'', ''title'' \<mapsto> ''Two'']]]
             = Inr table
     \<and> length table = 2
     \<and> map fst table = [JStr ''a'', JStr ''b'']
     \<and> orders table = [JNum 0, JNum 1]
     \<and> map (\<lambda>(k, c). fld c ''title'') table = [JStr ''a'', JStr ''Two'']"
proof -
  let ?xs = "[[''id'' \<mapsto> ''a''], [''id'' \<mapsto> ''b'', ''title'' \<mapsto> ''Two'']] :: Thing list"
  from walkSpine_entries[of "[''contents'' \<mapsto> Items ?xs]" ?xs]
  obtain table where t: "walkSpine [''contents'' \<mapsto> Items ?xs] = Inr table" "length table = 2"
    and p: "\<forall>p<2. fst (table ! p) = attr (?xs ! p) ''id''
               \<and> fld (snd (table ! p)) ''order''
                   = (case (?xs ! p) ''order'' of None \<Rightarrow> JNum p | Some v \<Rightarrow> JStr v)
               \<and> fld (snd (table ! p)) ''title''
                   = (case (?xs ! p) ''title'' of None \<Rightarrow> attr (?xs ! p) ''id'' | Some v \<Rightarrow> JStr v)"
    by (auto simp: ids_def)
  from t(2) obtain e0 e1 where e: "table = [e0, e1]"
    by (auto simp: length_Suc_conv numeral_2_eq_2)
  from p have "fst e0 = JStr ''a''" "fld (snd e0) ''order'' = JNum 0" "fld (snd e0) ''title'' = JStr ''a''"
    unfolding e by (auto simp: attr_def dest: spec[of _ 0])
  moreover from p have "fst e1 = JStr ''b''" "fld (snd e1) ''order'' = JNum 1"
      "fld (snd e1) ''title'' = JStr ''Two''"
    unfolding e by (auto simp: attr_def dest: spec[of _ 1])
  ultimately show ?thesis
    using t(1) e by (auto simp: orders_def case_prod_beta)
qed

text \<open>
  C7: for every spine, no key of the table \<open>walkSpine\<close> returns is undefined; over an
  array of items the walk raises no error and the keys are exactly the ids that items
  carry, so an item without id contributes no entry.
\<close>

theorem walkSpine_keys:
  "(walkSpine sp = Inr table \<longrightarrow> JUndefined \<notin> fst ` set table)
   \<and> (sp ''contents'' = Some (Items xs)
        \<longrightarrow> (\<exists>t. walkSpine sp = Inr t \<and> fst ` set t = JStr ` set (ids xs)))"
proof -
  have "JUndefined \<notin> fst ` set (walk ys 0 [])" for ys
    by (auto simp: walk_keys)
  then have a: "walkSpine sp = Inr table \<longrightarrow> JUndefined \<notin> fst ` set table"
    by (auto simp: walkSpine_def split: sum.splits)
  have b: "sp ''contents'' = Some (Items xs)
        \<longrightarrow> (\<exists>t. walkSpine sp = Inr t \<and> fst ` set t = JStr ` set (ids xs))"
    by (simp add: walkSpine_def for_of_def walk_keys)
  from a b show ?thesis ..
qed

text \<open>
  C7, at the spine of an item without id followed by the item \<open>a\<close>: the walk returns a
  table, whose keys are \<open>a\<close> alone.
\<close>

theorem walkSpine_keys_witness:
  "walkSpine [''contents'' \<mapsto> Items [[''href'' \<mapsto> ''h''], [''id'' \<mapsto> ''a'']]]
     = Inr (walk [[''href'' \<mapsto> ''h''], [''id'' \<mapsto> ''a'']] 0 [])
   \<and> JUndefined \<notin> fst ` set (walk [[''href'' \<mapsto> ''h''], [''id'' \<mapsto> ''a'']] 0 [])
   \<and> (\<exists>t. walkSpine [''contents'' \<mapsto> Items [[''href'' \<mapsto> ''h''], [''id'' \<mapsto> ''a'']]] = Inr t
         \<and> fst ` set t = {JStr ''a''})"
proof -
  let ?xs = "[[''href'' \<mapsto> ''h''], [''id'' \<mapsto> ''a'']] :: Thing list"
  have r: "walkSpine [''contents'' \<mapsto> Items ?xs] = Inr (walk ?xs 0 [])"
    by (simp add: walkSpine_def for_of_def)
  have i: "ids ?xs = [''a'']"
    by (simp add: ids_def)
  from walkSpine_keys[of "[''contents'' \<mapsto> Items ?xs]" "walk ?xs 0 []" ?xs] r i
  show ?thesis by simp
qed

section \<open>Properties of parseSpine\<close>

lemma resolve_Inr: "resolve m i r = Inr item \<longleftrightarrow> resolves_to m r item"
  by (auto simp: resolve_def resolves_to_def lookup_item_def Let_def
      split: option.splits found.splits)

lemma map_index_Inr: "map_index m n rs = Inr ls \<longleftrightarrow> list_all2 (resolves_to m) rs ls"
proof (induction rs arbitrary: n ls)
  case Nil
  then show ?case by auto
next
  case (Cons r rs)
  show ?case
  proof (cases "resolve m n r")
    case (Inl e)
    then have "\<not> (\<exists>l. resolves_to m r l)"
      using resolve_Inr[of m n r] by auto
    with Inl show ?thesis by (auto simp: list_all2_Cons1)
  next
    case (Inr l)
    then have l: "resolves_to m r l"
      using resolve_Inr[of m n r l] by auto
    have "map_index m n (r # rs) = Inr ls
            \<longleftrightarrow> (\<exists>ls'. ls = l # ls' \<and> map_index m (Suc n) rs = Inr ls')"
      using Inr by (auto split: sum.splits)
    also have "\<dots> \<longleftrightarrow> (\<exists>ls'. ls = l # ls' \<and> list_all2 (resolves_to m) rs ls')"
      using Cons.IH[of "Suc n"] by simp
    also have "\<dots> \<longleftrightarrow> list_all2 (resolves_to m) (r # rs) ls"
    proof
      assume "\<exists>ls'. ls = l # ls' \<and> list_all2 (resolves_to m) rs ls'"
      then show "list_all2 (resolves_to m) (r # rs) ls"
        using l by auto
    next
      assume "list_all2 (resolves_to m) (r # rs) ls"
      then obtain l' ls' where c: "ls = l' # ls'" "resolves_to m r l'"
          "list_all2 (resolves_to m) rs ls'"
        by (auto simp: list_all2_Cons1)
      from c(2) l have "l' = l"
        by (simp add: resolves_to_def)
      with c show "\<exists>ls'. ls = l # ls' \<and> list_all2 (resolves_to m) rs ls'"
        by simp
    qed
    finally show ?thesis .
  qed
qed

lemma map_index_first_failure:
  "k < length rs \<Longrightarrow> \<forall>i<k. \<exists>item. resolve m (n + i) (rs ! i) = Inr item
     \<Longrightarrow> resolve m (n + k) (rs ! k) = Inl e \<Longrightarrow> map_index m n rs = Inl e"
proof (induction rs arbitrary: n k)
  case Nil
  then show ?case by simp
next
  case (Cons r rs)
  show ?case
  proof (cases k)
    case 0
    with Cons.prems show ?thesis by simp
  next
    case (Suc j)
    from Cons.prems(2) Suc obtain item where r: "resolve m n r = Inr item"
      by (metis add.right_neutral nth_Cons_0 zero_less_Suc)
    have "\<forall>i<j. \<exists>item. resolve m (Suc n + i) (rs ! i) = Inr item"
      using Cons.prems(2) Suc by (metis Suc_less_eq add_Suc_shift nth_Cons_Suc)
    moreover have "resolve m (Suc n + j) (rs ! j) = Inl e"
      using Cons.prems(3) Suc by simp
    moreover have "j < length rs"
      using Cons.prems(1) Suc by simp
    ultimately have "map_index m (Suc n) rs = Inl e"
      by (rule Cons.IH[rotated -1, rotated -1])
    with r show ?thesis by simp
  qed
qed

lemma spine_literal_contents:
  "spine_literal a ''contents''
     = (case (case a of None \<Rightarrow> Map.empty | Some t \<Rightarrow> t) ''contents'' of
          None \<Rightarrow> Some (Items [])
        | Some v \<Rightarrow> Some (Text v))"
  by (auto simp: spine_literal_def map_add_def split: option.splits)

lemma parseSpine_with_itemref:
  "itemref raw = Some refs \<Longrightarrow>
   parseSpine raw m = (case map_index m 0 (toArray refs) of
       Inl e \<Rightarrow> Inl e
     | Inr ls \<Rightarrow> Inr ((spine_literal (spine_attributes raw))(''contents'' \<mapsto> Items ls)))"
  by (simp add: parseSpine_def)

lemma list_all2_choice: "\<forall>r\<in>set rs. \<exists>l. P r l \<Longrightarrow> \<exists>ls. list_all2 P rs ls"
  by (induction rs) (auto simp: list_all2_Cons1)

lemma parseSpine_without_itemref:
  "itemref raw = None \<Longrightarrow> parseSpine raw m = Inr (spine_literal (spine_attributes raw))"
  by (simp add: parseSpine_def)

lemma resolved_nth:
  "list_all2 (resolves_to m) rs ls \<Longrightarrow>
   length ls = length rs \<and> (\<forall>i<length ls. lookup_item m (rs ! i) = Some (Item (ls ! i)))"
  by (auto simp: list_all2_conv_all_nth resolves_to_def)

text \<open>
  C1, as stated: whenever every itemref entry references an id present in the manifest,
  the found item carrying \<open>id\<close>, \<open>parseSpine\<close> returns a contents sequence with one element
  per itemref entry. This fails in two ways. A raw spine without \<open>itemref\<close> that has an
  attribute named \<open>contents\<close> gets that text as its contents, since the attributes override
  the default props: not a sequence of no elements. And a found item that carries \<open>id\<close>
  and an attribute named \<open>hasOwnProperty\<close> makes the test of the callback throw.
\<close>

theorem parseSpine_contents_counterexample:
  "(case parseSpine \<lparr>itemref = None, spine_attributes = Some [''contents'' \<mapsto> ''all'']\<rparr> Map.empty of
      Inl e \<Rightarrow> False
    | Inr s \<Rightarrow> s ''contents'' = Some (Text ''all'') \<and> s ''contents'' \<noteq> Some (Items []))
   \<and> parseSpine
        \<lparr>itemref = Some (One \<lparr>ref_attributes = Some [''idref'' \<mapsto> ''a'']\<rparr>),
         spine_attributes = None\<rparr>
        [''a'' \<mapsto> [''id'' \<mapsto> ''a'', ''hasOwnProperty'' \<mapsto> ''x'']]
      = Inl (TypeError_not_a_function ''l.hasOwnProperty'')"
  by (simp add: parseSpine_def spine_literal_def resolve_def key_of_def lookup_def)

text \<open>
  C1, amended: for every manifest and every raw spine that has \<open>itemref\<close>, each entry
  referencing an id present in the manifest, the found item carrying \<open>id\<close> and no attribute
  named \<open>hasOwnProperty\<close>, \<open>parseSpine\<close> returns a Spine whose contents has as many elements
  as there are itemref entries, the element at each index being the manifest item that the
  entry at that index names. For a raw spine without \<open>itemref\<close>, the contents is the empty
  sequence, or the raw spine's attribute named \<open>contents\<close> when it has one.
\<close>

theorem parseSpine_contents:
  "(itemref raw = Some refs
      \<and> (\<forall>r\<in>set (toArray refs). \<exists>item. lookup_item m r = Some (Item item)
              \<and> item ''id'' \<noteq> None \<and> item ''hasOwnProperty'' = None)
      \<longrightarrow> (\<exists>s ls. parseSpine raw m = Inr s \<and> s ''contents'' = Some (Items ls)
             \<and> length ls = length (toArray refs)
             \<and> (\<forall>i<length ls. lookup_item m (toArray refs ! i) = Some (Item (ls ! i)))))
   \<and> (itemref raw = None
      \<longrightarrow> (\<exists>s. parseSpine raw m = Inr s
             \<and> s ''contents'' = (case raw_attributes raw ''contents'' of
                                    None \<Rightarrow> Some (Items [])
                                  | Some v \<Rightarrow> Some (Text v))))"
proof -
  have a: "\<exists>s ls. parseSpine raw m = Inr s \<and> s ''contents'' = Some (Items ls)
             \<and> length ls = length (toArray refs)
             \<and> (\<forall>i<length ls. lookup_item m (toArray refs ! i) = Some (Item (ls ! i)))"
    if i: "itemref raw = Some refs" and r: "\<forall>r\<in>set (toArray refs). \<exists>item. resolves_to m r item"
  proof -
    from list_all2_choice[OF r] obtain ls where all: "list_all2 (resolves_to m) (toArray refs) ls" ..
    then have "map_index m 0 (toArray refs) = Inr ls"
      by (simp add: map_index_Inr)
    then have "parseSpine raw m
                 = Inr ((spine_literal (spine_attributes raw))(''contents'' \<mapsto> Items ls))"
      using i by (simp add: parseSpine_with_itemref)
    with resolved_nth[OF all] show ?thesis by simp
  qed
  have b: "\<exists>s. parseSpine raw m = Inr s
             \<and> s ''contents'' = (case raw_attributes raw ''contents'' of
                                    None \<Rightarrow> Some (Items [])
                                  | Some v \<Rightarrow> Some (Text v))"
    if "itemref raw = None"
    using parseSpine_without_itemref[OF that, of m]
    by (simp add: spine_literal_contents raw_attributes_def)
  from a b show ?thesis unfolding resolves_to_def by blast
qed

text \<open>
  C1, amended, at a manifest of the items \<open>a\<close> and \<open>b\<close> and a spine that references \<open>b\<close>,
  then \<open>a\<close>: the contents are the item \<open>b\<close>, then the item \<open>a\<close>; and at a spine without
  \<open>itemref\<close> and without an attribute \<open>contents\<close>: the contents are empty.
\<close>

theorem parseSpine_contents_witness:
  "(\<exists>s. parseSpine
          \<lparr>itemref = Some (Many [\<lparr>ref_attributes = Some [''idref'' \<mapsto> ''b'']\<rparr>,
                                 \<lparr>ref_attributes = Some [''idref'' \<mapsto> ''a'']\<rparr>]),
           spine_attributes = None\<rparr>
          [''a'' \<mapsto> [''id'' \<mapsto> ''a''], ''b'' \<mapsto> [''id'' \<mapsto> ''b'']] = Inr s
      \<and> s ''contents'' = Some (Items [[''id'' \<mapsto> ''b''], [''id'' \<mapsto> ''a'']]))
   \<and> (\<exists>s. parseSpine \<lparr>itemref = None, spine_attributes = Some [''toc'' \<mapsto> ''nav'']\<rparr>
               [''a'' \<mapsto> [''id'' \<mapsto> ''a'']] = Inr s
         \<and> s ''contents'' = Some (Items []))"
proof -
  let ?refs = "Many [\<lparr>ref_attributes = Some [''idref'' \<mapsto> ''b'']\<rparr>,
                     \<lparr>ref_attributes = Some [''idref'' \<mapsto> ''a'']\<rparr>]"
  let ?raw = "\<lparr>itemref = Some ?refs, spine_attributes = None\<rparr>"
  let ?m = "[''a'' \<mapsto> [''id'' \<mapsto> ''a''], ''b'' \<mapsto> [''id'' \<mapsto> ''b'']] :: Manifest"
  from parseSpine_contents[of ?raw ?refs ?m]
  obtain s ls where s: "parseSpine ?raw ?m = Inr s" "s ''contents'' = Some (Items ls)"
    and n: "length ls = 2"
    and l: "\<forall>i<2. lookup_item ?m (toArray ?refs ! i) = Some (Item (ls ! i))"
    by (auto simp: lookup_item_def lookup_def key_of_def)
  from n obtain l0 l1 where e: "ls = [l0, l1]"
    by (auto simp: length_Suc_conv numeral_2_eq_2)
  from l have "l0 = [''id'' \<mapsto> ''b'']"
    unfolding e by (auto simp: lookup_item_def lookup_def key_of_def dest: spec[of _ 0])
  moreover from l have "l1 = [''id'' \<mapsto> ''a'']"
    unfolding e by (auto simp: lookup_item_def lookup_def key_of_def dest: spec[of _ 1])
  ultimately have 1: "\<exists>s. parseSpine ?raw ?m = Inr s
      \<and> s ''contents'' = Some (Items [[''id'' \<mapsto> ''b''], [''id'' \<mapsto> ''a'']])"
    using s e by blast
  have 2: "\<exists>s. parseSpine \<lparr>itemref = None, spine_attributes = Some [''toc'' \<mapsto> ''nav'']\<rparr>
               [''a'' \<mapsto> [''id'' \<mapsto> ''a'']] = Inr s
         \<and> s ''contents'' = Some (Items [])"
    using parseSpine_contents
      [of "\<lparr>itemref = None, spine_attributes = Some [''toc'' \<mapsto> ''nav'']\<rparr>" _
          "[''a'' \<mapsto> [''id'' \<mapsto> ''a'']]"]
    by (simp add: raw_attributes_def)
  from 1 2 show ?thesis ..
qed

text \<open>
  C5: when the itemref entry at index k references an id that the manifest does not hold,
  all entries before it resolving, \<open>parseSpine\<close> is to fail with the TypeError that names
  index k. The code does not, when an earlier found item carries an attribute named
  \<open>hasOwnProperty\<close>: over the manifest of the item \<open>a\<close> with \<open>id\<close> and such an attribute, the
  spine that references \<open>a\<close>, then the absent \<open>zz\<close>, fails at index 0, calling what is not a
  function, and not with the missing id at index 1.
\<close>

theorem parseSpine_dangling_failing_input:
  "parseSpine
     \<lparr>itemref = Some (Many [\<lparr>ref_attributes = Some [''idref'' \<mapsto> ''a'']\<rparr>,
                            \<lparr>ref_attributes = Some [''idref'' \<mapsto> ''zz'']\<rparr>]),
      spine_attributes = None\<rparr>
     [''a'' \<mapsto> [''id'' \<mapsto> ''a'', ''hasOwnProperty'' \<mapsto> ''x'']]
   = Inl (TypeError_not_a_function ''l.hasOwnProperty'')
   \<and> lookup_item [''a'' \<mapsto> [''id'' \<mapsto> ''a'', ''hasOwnProperty'' \<mapsto> ''x'']]
         \<lparr>ref_attributes = Some [''idref'' \<mapsto> ''a'']\<rparr>
       = Some (Item [''id'' \<mapsto> ''a'', ''hasOwnProperty'' \<mapsto> ''x''])
   \<and> lookup_item [''a'' \<mapsto> [''id'' \<mapsto> ''a'', ''hasOwnProperty'' \<mapsto> ''x'']]
         \<lparr>ref_attributes = Some [''idref'' \<mapsto> ''zz'']\<rparr>
       = None"
  by (simp add: parseSpine_def resolve_def key_of_def lookup_def lookup_item_def Object_prototype_def)

text \<open>
  When no found item before index k carries an attribute named \<open>hasOwnProperty\<close>, the
  error is the one that names index k, with what the lookup of the absent id gave:
  nothing, or the member of \<open>Object.prototype\<close> of that name.
\<close>

lemma parseSpine_dangling:
  assumes "itemref raw = Some refs"
    and "k < length (toArray refs)"
    and "\<forall>i<k. \<exists>item. resolves_to m (toArray refs ! i) item"
    and "ref_attributes (toArray refs ! k) = Some atrs"
    and "atrs ''idref'' = Some x"
    and "m x = None"
  shows "parseSpine raw m = Inl (TypeError_Missing_id k (lookup m x))"
proof -
  have "\<forall>i<k. \<exists>item. resolve m (0 + i) (toArray refs ! i) = Inr item"
    using assms(3) by (simp add: resolve_Inr)
  moreover have "resolve m (0 + k) (toArray refs ! k) = Inl (TypeError_Missing_id k (lookup m x))"
    using assms(4,5,6) by (simp add: resolve_def key_of_def lookup_def)
  ultimately have "map_index m 0 (toArray refs) = Inl (TypeError_Missing_id k (lookup m x))"
    using assms(2) by (intro map_index_first_failure)
  then show ?thesis using assms(1) by (simp add: parseSpine_with_itemref)
qed

text \<open>
  C6, as stated: whenever \<open>parseSpine\<close> returns, every element of the returned contents
  is a manifest Item whose \<open>id\<close> is defined. This fails for a raw spine without \<open>itemref\<close>
  that has an attribute named \<open>contents\<close>: over the empty manifest \<open>parseSpine\<close> returns,
  and the contents is the text \<open>all\<close>, whose three elements are characters, without id.
\<close>

theorem parseSpine_contents_have_id_counterexample:
  "(case parseSpine \<lparr>itemref = None, spine_attributes = Some [''contents'' \<mapsto> ''all'']\<rparr> Map.empty of
      Inl e \<Rightarrow> False
    | Inr s \<Rightarrow> s ''contents'' = Some (Text ''all'')
        \<and> (case for_of (s ''contents'') of
              Inl e \<Rightarrow> False
            | Inr xs \<Rightarrow> length xs = 3 \<and> map (\<lambda>x. x ''id'') xs = [None, None, None]))"
  by (simp add: parseSpine_def spine_literal_def for_of_def)

text \<open>
  C6, amended: whenever \<open>parseSpine\<close> returns a Spine, its contents is either the raw
  spine's own attribute named \<open>contents\<close> (only when the raw spine has no \<open>itemref\<close>), or a
  sequence every element of which is an Item of the manifest that carries \<open>id\<close>; an itemref
  entry that names an Item without \<open>id\<close> makes \<open>parseSpine\<close> fail instead.
\<close>

theorem parseSpine_contents_have_id:
  "(parseSpine raw m = Inr s
      \<longrightarrow> (itemref raw = None
           \<and> (\<exists>v. raw_attributes raw ''contents'' = Some v \<and> s ''contents'' = Some (Text v)))
        \<or> (\<exists>ls. s ''contents'' = Some (Items ls)
              \<and> (\<forall>l\<in>set ls. (\<exists>k. m k = Some l) \<and> l ''id'' \<noteq> None)))
   \<and> (itemref raw = Some refs \<and> r \<in> set (toArray refs) \<and> lookup_item m r = Some (Item item)
        \<and> item ''id'' = None
      \<longrightarrow> (\<exists>e. parseSpine raw m = Inl e))"
proof -
  have own: "\<exists>k. m k = Some l" if "resolves_to m r' l" for r' l
    using that
    by (auto simp: resolves_to_def lookup_item_def lookup_def split: option.splits if_splits)
  have a: "(itemref raw = None
           \<and> (\<exists>v. raw_attributes raw ''contents'' = Some v \<and> s ''contents'' = Some (Text v)))
        \<or> (\<exists>ls. s ''contents'' = Some (Items ls)
              \<and> (\<forall>l\<in>set ls. (\<exists>k. m k = Some l) \<and> l ''id'' \<noteq> None))"
    if p: "parseSpine raw m = Inr s"
  proof (cases "itemref raw")
    case None
    with p have "s = spine_literal (spine_attributes raw)"
      by (simp add: parseSpine_without_itemref)
    then have "s ''contents'' = (case raw_attributes raw ''contents'' of
                                   None \<Rightarrow> Some (Items [])
                                 | Some v \<Rightarrow> Some (Text v))"
      by (simp add: spine_literal_contents raw_attributes_def)
    with None show ?thesis
      by (auto split: option.splits)
  next
    case (Some refs')
    with p obtain ls where ls: "map_index m 0 (toArray refs') = Inr ls"
      and s: "s = (spine_literal (spine_attributes raw))(''contents'' \<mapsto> Items ls)"
      by (auto simp: parseSpine_with_itemref split: sum.splits)
    from ls have all: "list_all2 (resolves_to m) (toArray refs') ls"
      by (simp add: map_index_Inr)
    have "(\<exists>k. m k = Some l) \<and> l ''id'' \<noteq> None" if "l \<in> set ls" for l
    proof -
      from all that obtain r' where "resolves_to m r' l"
        by (auto simp: list_all2_conv_all_nth in_set_conv_nth)
      then show ?thesis using own by (auto simp: resolves_to_def)
    qed
    with s show ?thesis by simp
  qed
  have b: "\<exists>e. parseSpine raw m = Inl e"
    if "itemref raw = Some refs" "r \<in> set (toArray refs)" "lookup_item m r = Some (Item item)"
      "item ''id'' = None"
  proof (cases "map_index m 0 (toArray refs)")
    case (Inl e)
    with that(1) show ?thesis by (simp add: parseSpine_with_itemref)
  next
    case (Inr ls')
    then have "list_all2 (resolves_to m) (toArray refs) ls'"
      by (simp add: map_index_Inr)
    with that(2,3,4) have False
      by (auto simp: list_all2_conv_all_nth in_set_conv_nth resolves_to_def)
    then show ?thesis ..
  qed
  from a b show ?thesis by blast
qed

text \<open>
  C6, amended, at a manifest of the item \<open>a\<close> and of an item without id stored under
  \<open>x\<close>: the spine that references \<open>a\<close> returns the item \<open>a\<close>; the spine that references
  \<open>a\<close>, then \<open>x\<close>, fails.
\<close>

theorem parseSpine_contents_have_id_witness:
  "((\<exists>k. [''a'' \<mapsto> [''id'' \<mapsto> ''a''], ''x'' \<mapsto> [''href'' \<mapsto> ''h'']] k = Some [''id'' \<mapsto> ''a''])
      \<and> [''id'' \<mapsto> ''a''] ''id'' \<noteq> None)
   \<and> (\<exists>e. parseSpine
             \<lparr>itemref = Some (Many [\<lparr>ref_attributes = Some [''idref'' \<mapsto> ''a'']\<rparr>,
                                    \<lparr>ref_attributes = Some [''idref'' \<mapsto> ''x'']\<rparr>]),
              spine_attributes = None\<rparr>
             [''a'' \<mapsto> [''id'' \<mapsto> ''a''], ''x'' \<mapsto> [''href'' \<mapsto> ''h'']] = Inl e)"
proof -
  let ?m = "[''a'' \<mapsto> [''id'' \<mapsto> ''a''], ''x'' \<mapsto> [''href'' \<mapsto> ''h'']] :: Manifest"
  let ?ra = "\<lparr>ref_attributes = Some [''idref'' \<mapsto> ''a'']\<rparr>"
  let ?rx = "\<lparr>ref_attributes = Some [''idref'' \<mapsto> ''x'']\<rparr>"
  let ?raw1 = "\<lparr>itemref = Some (One ?ra), spine_attributes = None\<rparr>"
  let ?raw2 = "\<lparr>itemref = Some (Many [?ra, ?rx]), spine_attributes = None\<rparr>"
  let ?s = "(spine_literal None)(''contents'' \<mapsto> Items [[''id'' \<mapsto> ''a'']])"
  have p: "parseSpine ?raw1 ?m = Inr ?s"
    by (simp add: parseSpine_def resolve_def key_of_def lookup_def)
  have 1: "(\<exists>k. ?m k = Some [''id'' \<mapsto> ''a'']) \<and> [''id'' \<mapsto> ''a''] ''id'' \<noteq> None"
    using parseSpine_contents_have_id[of ?raw1 ?m ?s] p
    by simp
  have 2: "\<exists>e. parseSpine ?raw2 ?m = Inl e"
    using parseSpine_contents_have_id
      [of ?raw2 ?m _ "Many [?ra, ?rx]" ?rx "[''href'' \<mapsto> ''h'']"]
    by (simp add: lookup_item_def lookup_def key_of_def)
  from 1 2 show ?thesis by blast
qed

text \<open>
  C8, as stated: every attribute of the raw spine element other than \<open>toc\<close> is merged
  verbatim as a top-level field. This fails for the two names that are assigned after
  the spread: a raw attribute named \<open>contents\<close> is replaced by the list of resolved items
  when the spine has \<open>itemref\<close>, and a raw attribute named \<open>_attributes\<close> is replaced by
  the empty object.
\<close>

theorem parseSpine_attributes_counterexample:
  "(case parseSpine
           \<lparr>itemref = Some (One \<lparr>ref_attributes = Some [''idref'' \<mapsto> ''a'']\<rparr>),
            spine_attributes = Some [''contents'' \<mapsto> ''all'']\<rparr>
           [''a'' \<mapsto> [''id'' \<mapsto> ''a'']] of
      Inl e \<Rightarrow> False
    | Inr s \<Rightarrow> s ''contents'' = Some (Items [[''id'' \<mapsto> ''a'']])
               \<and> s ''contents'' \<noteq> Some (Text ''all''))
   \<and> (case parseSpine \<lparr>itemref = None, spine_attributes = Some [''_attributes'' \<mapsto> ''x'']\<rparr>
             Map.empty of
        Inl e \<Rightarrow> False
      | Inr s \<Rightarrow> s ''_attributes'' = Some (Attrs Map.empty)
                 \<and> s ''_attributes'' \<noteq> Some (Text ''x''))"
  by (simp add: parseSpine_def spine_literal_def resolve_def key_of_def lookup_def)

text \<open>
  C8, amended: the Spine that \<open>parseSpine\<close> returns has \<open>toc\<close> equal to the raw spine's
  \<open>toc\<close> attribute when present and "ncx" otherwise, and every other attribute of the raw
  spine element is merged verbatim as a top-level field, except an attribute named
  \<open>_attributes\<close>, and an attribute named \<open>contents\<close> when the raw spine has \<open>itemref\<close>. The
  field \<open>_attributes\<close> is always the empty object. When the raw spine has \<open>itemref\<close>, the
  field \<open>contents\<close> is the list of the manifest items that its entries name, in order;
  when it has neither \<open>itemref\<close> nor an attribute \<open>contents\<close>, the empty list.
\<close>

theorem parseSpine_attributes:
  assumes "parseSpine raw m = Inr s"
  shows "s ''toc'' = Some (Text (case raw_attributes raw ''toc'' of None \<Rightarrow> ''ncx'' | Some t \<Rightarrow> t))
       \<and> (\<forall>name v. raw_attributes raw name = Some v \<and> name \<noteq> ''_attributes''
                   \<and> (name = ''contents'' \<longrightarrow> itemref raw = None)
             \<longrightarrow> s name = Some (Text v))
       \<and> s ''_attributes'' = Some (Attrs Map.empty)
       \<and> (\<forall>refs. itemref raw = Some refs
             \<longrightarrow> (\<exists>ls. s ''contents'' = Some (Items ls) \<and> length ls = length (toArray refs)
                    \<and> (\<forall>i<length ls. lookup_item m (toArray refs ! i) = Some (Item (ls ! i)))))
       \<and> (itemref raw = None \<and> raw_attributes raw ''contents'' = None
             \<longrightarrow> s ''contents'' = Some (Items []))"
proof -
  let ?lit = "spine_literal (spine_attributes raw)"
  have t: "?lit ''toc'' = Some (Text (case raw_attributes raw ''toc'' of None \<Rightarrow> ''ncx'' | Some t \<Rightarrow> t))"
    by (simp add: spine_literal_def raw_attributes_def map_add_def split: option.splits)
  have p: "?lit name = Some (Text v)"
    if "raw_attributes raw name = Some v" "name \<noteq> ''_attributes''" for name v
    using that by (auto simp: spine_literal_def raw_attributes_def map_add_def split: option.splits)
  have u: "?lit ''_attributes'' = Some (Attrs Map.empty)"
    by (simp add: spine_literal_def)
  have c: "?lit ''contents'' = Some (Items [])" if "raw_attributes raw ''contents'' = None"
    using that by (simp add: spine_literal_contents raw_attributes_def)
  show ?thesis
  proof (cases "itemref raw")
    case None
    with assms have "s = ?lit"
      by (simp add: parseSpine_without_itemref)
    with None t p u c show ?thesis by simp
  next
    case (Some refs)
    with assms obtain ls where ls: "map_index m 0 (toArray refs) = Inr ls"
      and s: "s = ?lit(''contents'' \<mapsto> Items ls)"
      by (auto simp: parseSpine_with_itemref split: sum.splits)
    from ls have "list_all2 (resolves_to m) (toArray refs) ls"
      by (simp add: map_index_Inr)
    from resolved_nth[OF this] Some s t p u show ?thesis by auto
  qed
qed

text \<open>
  C8, amended, at a raw spine with \<open>itemref\<close> and the attributes \<open>toc\<close> and
  \<open>page-progression-direction\<close>: both are fields of the Spine returned, beside the
  contents; and at a raw spine without \<open>itemref\<close> with the attribute \<open>contents\<close>: it is
  passed through.
\<close>

theorem parseSpine_attributes_witness:
  "parseSpine
     \<lparr>itemref = Some (One \<lparr>ref_attributes = Some [''idref'' \<mapsto> ''a'']\<rparr>),
      spine_attributes = Some [''toc'' \<mapsto> ''nav'', ''page-progression-direction'' \<mapsto> ''rtl'']\<rparr>
     [''a'' \<mapsto> [''id'' \<mapsto> ''a'']]
   = Inr ((spine_literal (Some [''toc'' \<mapsto> ''nav'', ''page-progression-direction'' \<mapsto> ''rtl'']))
            (''contents'' \<mapsto> Items [[''id'' \<mapsto> ''a'']]))
   \<and> ((spine_literal (Some [''toc'' \<mapsto> ''nav'', ''page-progression-direction'' \<mapsto> ''rtl'']))
            (''contents'' \<mapsto> Items [[''id'' \<mapsto> ''a'']])) ''toc'' = Some (Text ''nav'')
   \<and> ((spine_literal (Some [''toc'' \<mapsto> ''nav'', ''page-progression-direction'' \<mapsto> ''rtl'']))
            (''contents'' \<mapsto> Items [[''id'' \<mapsto> ''a'']])) ''page-progression-direction''
       = Some (Text ''rtl'')
   \<and> spine_literal (Some [''contents'' \<mapsto> ''all'']) ''contents'' = Some (Text ''all'')"
proof -
  let ?a = "[''toc'' \<mapsto> ''nav'', ''page-progression-direction'' \<mapsto> ''rtl''] :: Thing"
  let ?raw = "\<lparr>itemref = Some (One \<lparr>ref_attributes = Some [''idref'' \<mapsto> ''a'']\<rparr>),
               spine_attributes = Some ?a\<rparr>"
  let ?m = "[''a'' \<mapsto> [''id'' \<mapsto> ''a'']] :: Manifest"
  let ?s = "(spine_literal (Some ?a))(''contents'' \<mapsto> Items [[''id'' \<mapsto> ''a'']])"
  have p: "parseSpine ?raw ?m = Inr ?s"
    by (simp add: parseSpine_def resolve_def key_of_def lookup_def)
  from parseSpine_attributes[OF p]
  have "?s ''toc'' = Some (Text ''nav'')"
    and "\<forall>name v. ?a name = Some v \<and> name \<noteq> ''_attributes''
                   \<and> (name = ''contents'' \<longrightarrow> False)
             \<longrightarrow> ?s name = Some (Text v)"
    by (simp_all add: raw_attributes_def)
  then have 1: "?s ''toc'' = Some (Text ''nav'')"
    and 2: "?s ''page-progression-direction'' = Some (Text ''rtl'')"
    by (auto dest: spec[of _ "''page-progression-direction''"])
  let ?raw0 = "\<lparr>itemref = None, spine_attributes = Some [''contents'' \<mapsto> ''all'']\<rparr>"
  have p0: "parseSpine ?raw0 ?m = Inr (spine_literal (Some [''contents'' \<mapsto> ''all'']))"
    by (simp add: parseSpine_def)
  from parseSpine_attributes[OF p0]
  have "\<forall>name v. [''contents'' \<mapsto> ''all''] name = Some v \<and> name \<noteq> ''_attributes''
             \<longrightarrow> spine_literal (Some [''contents'' \<mapsto> ''all'']) name = Some (Text v)"
    by (simp add: raw_attributes_def)
  then have 3: "spine_literal (Some [''contents'' \<mapsto> ''all'']) ''contents'' = Some (Text ''all'')"
    by (auto dest: spec[of _ "''contents''"])
  from p 1 2 3 show ?thesis by blast
qed

section \<open>Properties of parseRootFile, the Retriever and the Reader\<close>

text \<open>
  C2: when the package is read up to the Spine and no strategy yields a non-empty table
  of contents (in particular when \<open>spine.contents\<close> is empty and neither navigation
  document yields an entry), \<open>parseRootFile\<close> fails with the "NO TOC" TypeError, after
  the flow event and before the toc event, and returns no Parts.
\<close>

theorem parseRootFile_no_toc:
  assumes "pkg_attributes pkg = Some a"
    and "parseSpine (pkg_spine pkg) (parseManifest c (pkg_manifest_item pkg)) = Inr sp"
    and "walkNavMap parser (parseManifest c (pkg_manifest_item pkg)) (sp ''toc'') \<in> {None, Some []}"
    and "walkTOC parser (parseManifest c (pkg_manifest_item pkg)) \<in> {None, Some []}"
  shows "(walkSpine sp = Inr [] \<or> (\<exists>e. walkSpine sp = Inl e)
            \<longrightarrow> parseRootFile c parser pkg
                  = (Inl TypeError_NO_TOC, [EV_metadata, EV_manifest, EV_spine, EV_flow]))
       \<and> (sp ''contents'' = Some (Items [])
            \<longrightarrow> parseRootFile c parser pkg
                  = (Inl TypeError_NO_TOC, [EV_metadata, EV_manifest, EV_spine, EV_flow]))"
proof -
  let ?mf = "parseManifest c (pkg_manifest_item pkg)"
  have n1: "nonempty (walkNavMap parser ?mf (sp ''toc'')) = None"
    using assms(3) by (auto simp: nonempty_def)
  have n2: "nonempty (walkTOC parser ?mf) = None"
    using assms(4) by (auto simp: nonempty_def)
  have g: "parseRootFile c parser pkg
             = (Inl TypeError_NO_TOC, [EV_metadata, EV_manifest, EV_spine, EV_flow])"
    if "walkSpine sp = Inr [] \<or> (\<exists>e. walkSpine sp = Inl e)"
  proof -
    have "nonempty (case walkSpine sp of Inl e \<Rightarrow> None | Inr t \<Rightarrow> Some t) = None"
      using that by (auto simp: nonempty_def)
    then have "parseTOC parser ?mf sp = None"
      using n1 n2 by (simp add: parseTOC_def)
    then show ?thesis
      using assms(1,2) by (simp add: parseRootFile_def Let_def)
  qed
  show ?thesis using g walkSpine_empty by blast
qed

text \<open>
  C2, at a package whose spine has an empty \<open>itemref\<close> list, with no navigation map and
  a navigation document without entries.
\<close>

theorem parseRootFile_no_toc_witness:
  "parseRootFile
     \<lparr>parseMetadata = (\<lambda>u::unit. ()), parseManifest = (\<lambda>u::unit. Map.empty), parseFlow = (\<lambda>x. ())\<rparr>
     \<lparr>walkNavMap = (\<lambda>m t. None), walkTOC = (\<lambda>m. Some [])\<rparr>
     \<lparr>pkg_metadata = (), pkg_manifest_item = (),
      pkg_spine = \<lparr>itemref = Some (Many []), spine_attributes = None\<rparr>,
      pkg_attributes = Some Map.empty\<rparr>
   = (Inl TypeError_NO_TOC, [EV_metadata, EV_manifest, EV_spine, EV_flow])"
  using parseRootFile_no_toc
    [of "\<lparr>pkg_metadata = (), pkg_manifest_item = (),
          pkg_spine = \<lparr>itemref = Some (Many []), spine_attributes = None\<rparr>,
          pkg_attributes = Some Map.empty\<rparr>"
        Map.empty
        "\<lparr>parseMetadata = (\<lambda>u::unit. ()), parseManifest = (\<lambda>u::unit. Map.empty), parseFlow = (\<lambda>x. ())\<rparr>"
        "(spine_literal None)(''contents'' \<mapsto> Items [])"
        "\<lparr>walkNavMap = (\<lambda>m t. None), walkTOC = (\<lambda>m. Some [])\<rparr>"]
  by (simp add: parseSpine_def)

text \<open>
  C9: for every id that the manifest does not hold, \<open>getContent\<close> and \<open>getImage\<close> are to
  fail with the UnknownItemError that names the id. The code does not, for an id that
  names a member of \<open>Object.prototype\<close>: over a manifest of the item \<open>a\<close> alone, the search
  for \<open>constructor\<close> returns the inherited member, so that \<open>getContent\<close> goes on to the
  MIME check of an undefined media type (here with a test that no undefined value
  passes), and \<open>getImage\<close> to \<open>trim\<close> on undefined.
\<close>

theorem retrieval_unknown_item_failing_input:
  "manifest \<lparr>metadata = (), manifest = [''a'' \<mapsto> [''id'' \<mapsto> ''a'']], spine = Map.empty, flow = (),
             toc = [], version = ''2.0''\<rparr> ''constructor'' = None
   \<and> searchManifestOrPanic
        \<lparr>metadata = (), manifest = [''a'' \<mapsto> [''id'' \<mapsto> ''a'']], spine = Map.empty, flow = (),
         toc = [], version = ''2.0''\<rparr> ''constructor''
      = Inr (Inherited ''constructor'')
   \<and> fst (getContent
        \<lparr>getEntries = [], getData = (\<lambda>e w. ()), as_text = (\<lambda>d. ''''), createObjectURL = (\<lambda>d. ''''),
         decodeURI = (\<lambda>s. s), toLowerCase = (\<lambda>s. s), trim = (\<lambda>s. s),
         matches = (\<lambda>a e. a \<noteq> None)\<rparr>
        (\<lambda>n t. Inl (Error_Could_not_find_entry ''''))
        \<lparr>metadata = (), manifest = [''a'' \<mapsto> [''id'' \<mapsto> ''a'']], spine = Map.empty, flow = (),
         toc = [], version = ''2.0''\<rparr> ''constructor'')
      = Inl (MIMEError ''constructor'' None ALLOWED_MIMES)
   \<and> fst (getImage
        \<lparr>getEntries = [], getData = (\<lambda>e w. ()), as_text = (\<lambda>d. ''''), createObjectURL = (\<lambda>d. ''''),
         decodeURI = (\<lambda>s. s), toLowerCase = (\<lambda>s. s), trim = (\<lambda>s. s),
         matches = (\<lambda>a e. a \<noteq> None)\<rparr>
        (\<lambda>n t. Inl (Error_Could_not_find_entry ''''))
        \<lparr>metadata = (), manifest = [''a'' \<mapsto> [''id'' \<mapsto> ''a'']], spine = Map.empty, flow = (),
         toc = [], version = ''2.0''\<rparr> ''constructor'')
      = Inl (TypeError_undefined_property ''trim'')"
  by (simp add: getContent_def getImage_def searchManifestOrPanic_def lookup_def
      Object_prototype_def get_def MIMEError_unless_def)

text \<open>
  For an id under which the lookup finds nothing, own or inherited, both operations fail
  with the UnknownItemError that names the id, and the Parts aggregate is as it was.
\<close>

lemma retrieval_not_found:
  assumes "lookup (manifest parts) ident = None"
  shows "getContent p rd parts ident
           = (Inl (UnknownItemError (''Unkown manifest item: '' @ ident)), parts)
       \<and> getImage p rd parts ident
           = (Inl (UnknownItemError (''Unkown manifest item: '' @ ident)), parts)"
  using assms by (simp add: getContent_def getImage_def searchManifestOrPanic_def)

text \<open>
  C10: on an archive whose entry list is empty, \<open>init\<close> throws the Error "Empty archive!"
  after listing the entries and closing the archive, with no MIME check and no lookup of
  the container; \<open>read\<close> fails with it.
\<close>

theorem init_empty_archive:
  assumes "getEntries p = []"
  shows "init p = (Inl (Error ''Empty archive!''), [Step_getEntries, Step_close])
       \<and> read p = Inl (Error ''Empty archive!'')
       \<and> Step_checkMimeType \<notin> set (snd (init p))
       \<and> (\<forall>name. Step_read name \<notin> set (snd (init p)))"
  using assms by (simp add: init_def read_def)

text \<open>C10, at a platform whose archive has no entry.\<close>

theorem init_empty_archive_witness:
  "init \<lparr>getEntries = [], getData = (\<lambda>e w. ()), as_text = (\<lambda>d. ''''), createObjectURL = (\<lambda>d. ''''),
         decodeURI = (\<lambda>s. s), toLowerCase = (\<lambda>s. s), trim = (\<lambda>s. s), matches = (\<lambda>a e. True)\<rparr>
   = (Inl (Error ''Empty archive!''), [Step_getEntries, Step_close])"
  using init_empty_archive
    [of "\<lparr>getEntries = [], getData = (\<lambda>e w. ()), as_text = (\<lambda>d. ''''), createObjectURL = (\<lambda>d. ''''),
          decodeURI = (\<lambda>s. s), toLowerCase = (\<lambda>s. s), trim = (\<lambda>s. s), matches = (\<lambda>a e. True)\<rparr>"]
  by simp

end
